theory Spec2Isabelle
  imports Complex_Main
begin

section \<open>Python values\<close>

text \<open>
  The collector of \<^verbatim>\<open>spoofer_collector.py\<close> works on parsed JSON documents. The
  documents have the shape of the API (a page is a dictionary with an optional member list and
  an optional pagination view, a session is a dictionary), and the values stored under the
  keys are JSON scalars: \<^verbatim>\<open>null\<close>, booleans, integers and strings. JSON numbers with
  a fraction are left out of the model.
\<close>

datatype jval = JNull | JBool bool | JInt int | JStr string

text \<open>The exceptions that the modelled code can raise.\<close>

datatype py_error = ValueError | IndexError | AttributeError | ZeroDivisionError

text \<open>Python's truth value of a scalar, as tested by \<^verbatim>\<open>if x:\<close> and \<^verbatim>\<open>while x:\<close>.\<close>

fun truthy :: "jval \<Rightarrow> bool" where
  "truthy JNull = False"
| "truthy (JBool b) = b"
| "truthy (JInt i) = (i \<noteq> 0)"
| "truthy (JStr s) = (s \<noteq> [])"

subsection \<open>Decimal rendering of integers\<close>

definition digit_char :: "nat \<Rightarrow> char" where
  "digit_char n = (''0123456789'' ! n)"

function str_nat :: "nat \<Rightarrow> string" where
  "str_nat n = (if n < 10 then [digit_char n] else str_nat (n div 10) @ [digit_char (n mod 10)])"
  by pat_completeness auto
termination
  by (relation "measure id") auto

declare str_nat.simps [simp del]

definition str_int :: "int \<Rightarrow> string" where
  "str_int i = (if i < 0 then CHR ''-'' # str_nat (nat (- i)) else str_nat (nat i))"

text \<open>\<^verbatim>\<open>str(x)\<close>, which is what an f-string applies to a substituted value.\<close>

fun py_str :: "jval \<Rightarrow> string" where
  "py_str JNull = ''None''"
| "py_str (JBool b) = (if b then ''True'' else ''False'')"
| "py_str (JInt i) = str_int i"
| "py_str (JStr s) = s"

subsection \<open>Dictionaries\<close>

type_synonym session = "string \<rightharpoonup> jval"

text \<open>\<^verbatim>\<open>d.get(k)\<close> gives \<^verbatim>\<open>None\<close> for a missing key, \<^verbatim>\<open>d.get(k, default)\<close> gives the default.\<close>

definition dict_get :: "session \<Rightarrow> string \<Rightarrow> jval" where
  "dict_get d k = (case d k of None \<Rightarrow> JNull | Some v \<Rightarrow> v)"

definition dict_get_default :: "session \<Rightarrow> string \<Rightarrow> jval \<Rightarrow> jval" where
  "dict_get_default d k dflt = (case d k of None \<Rightarrow> dflt | Some v \<Rightarrow> v)"

section \<open>The record classifier\<close>

subsection \<open>\<^verbatim>\<open>format_record\<close>\<close>

definition format_record :: "session \<Rightarrow> string" where
  "format_record session =
     (let session_id = dict_get session ''session'';
          asn4 = dict_get_default session ''asn4'' (JStr ''N/A'');
          client4 = dict_get_default session ''client4'' (JStr ''N/A'');
          country = dict_get_default session ''country'' (JStr ''N/A'');
          privatespoof = dict_get_default session ''privatespoof'' (JStr ''N/A'');
          routedspoof = dict_get_default session ''routedspoof'' (JStr ''N/A'');
          timestamp = dict_get_default session ''timestamp'' (JStr ''N/A'')
      in ''Session: https://spoofer.caida.org/report.php?sessionid='' @ py_str session_id @ '', ''
         @ ''ASN4 number: '' @ py_str asn4 @ '', ''
         @ ''Client4: '' @ py_str client4 @ '', ''
         @ ''Country: '' @ py_str country @ '', ''
         @ ''Privatespoof: '' @ py_str privatespoof @ '', ''
         @ ''Routedspoof: '' @ py_str routedspoof @ '', ''
         @ ''Timestamp: '' @ py_str timestamp)"

subsection \<open>\<^verbatim>\<open>process_data\<close>\<close>

text \<open>
  An output file handle holds the text written through it so far and whether it has been
  closed; \<^verbatim>\<open>f.write(s)\<close> appends. The handles are written to only inside the
  \<^verbatim>\<open>with\<close> block of \<^verbatim>\<open>collect_data\<close>, where they are open, and writes to
  the local file system are taken to succeed. The two output paths are taken to name two
  different files.
\<close>

definition newline :: string where
  "newline = [CHR 0x0A]"

record out_file =
  content :: string
  is_closed :: bool

definition file_write :: "out_file \<Rightarrow> string \<Rightarrow> out_file" where
  "file_write f s = f\<lparr>content := content f @ s\<rparr>"

record page_acc =
  routed_file :: out_file
  private_file :: out_file
  routed_count :: nat
  private_count :: nat

text \<open>The body of the \<^verbatim>\<open>for session in ...\<close> loop of \<^verbatim>\<open>process_data\<close>.\<close>

definition process_session :: "session \<Rightarrow> page_acc \<Rightarrow> page_acc" where
  "process_session session acc =
     (if truthy (dict_get session ''client4'') then
        (let acc1 =
               (if dict_get session ''routedspoof'' = JStr ''received''
                then acc\<lparr>routed_file := file_write (routed_file acc) (format_record session @ newline),
                         routed_count := routed_count acc + 1\<rparr>
                else acc)
         in if dict_get session ''privatespoof'' = JStr ''received''
            then acc1\<lparr>private_file := file_write (private_file acc1) (format_record session @ newline),
                       private_count := private_count acc1 + 1\<rparr>
            else acc1)
      else acc)"

fun process_sessions :: "session list \<Rightarrow> page_acc \<Rightarrow> page_acc" where
  "process_sessions [] acc = acc"
| "process_sessions (session # rest) acc = process_sessions rest (process_session session acc)"

text \<open>A page of the API: \<^verbatim>\<open>hydra:member\<close>, \<^verbatim>\<open>hydra:view\<close> with its
  \<^verbatim>\<open>hydra:next\<close> and \<^verbatim>\<open>hydra:last\<close> references, each of them optional, and the
  number of further keys of the document (\<^verbatim>\<open>@context\<close>, \<^verbatim>\<open>@id\<close>, ...), which only
  matter for the truth value of the dictionary.\<close>

record view =
  hydra_next :: "jval option"
  hydra_last :: "jval option"

record page_data =
  hydra_member :: "session list option"
  hydra_view :: "view option"
  other_keys :: nat

text \<open>\<^verbatim>\<open>data.get("hydra:member", [])\<close>\<close>

definition members :: "page_data \<Rightarrow> session list" where
  "members data = (case hydra_member data of None \<Rightarrow> [] | Some ms \<Rightarrow> ms)"

text \<open>The truth value of the dictionary: it has at least one key.\<close>

definition page_truthy :: "page_data \<Rightarrow> bool" where
  "page_truthy data \<longleftrightarrow> hydra_member data \<noteq> None \<or> hydra_view data \<noteq> None \<or> 0 < other_keys data"

definition process_data :: "page_data \<Rightarrow> out_file \<Rightarrow> out_file \<Rightarrow> page_acc" where
  "process_data data rf pf =
     process_sessions (members data)
       \<lparr>routed_file = rf, private_file = pf, routed_count = 0, private_count = 0\<rparr>"

section \<open>The environment\<close>

text \<open>
  The collector talks to the network, sleeps, reads the clock and prints. The world record
  holds what the environment will answer (the outcome of the \<open>n\<close>-th HTTP request, the value
  of the \<open>n\<close>-th reading of \<^verbatim>\<open>time.time()\<close>, the rendering of \<^verbatim>\<open>datetime.now()\<close>)
  and the trace of what the program did, in order. Clock readings are rationals: the rounding
  of floating-point arithmetic is not modelled.

  An HTTP attempt either raises a \<^verbatim>\<open>requests.exceptions.RequestException\<close> (from
  \<^verbatim>\<open>requests.get\<close>, \<^verbatim>\<open>raise_for_status\<close> or \<^verbatim>\<open>response.json\<close>), carrying its message, or
  delivers the parsed document.
\<close>

datatype response = RequestException string | Json page_data

datatype event = HttpGet string | Sleep nat | Stdout string

record world =
  net :: "nat \<Rightarrow> string \<Rightarrow> response"
  requests_made :: nat
  clock :: "nat \<Rightarrow> rat"
  ticks :: nat
  now_stamp :: string
  trace :: "event list"

definition requests_get :: "string \<Rightarrow> world \<Rightarrow> response \<times> world" where
  "requests_get url w =
     (net w (requests_made w) url,
      w\<lparr>requests_made := requests_made w + 1, trace := trace w @ [HttpGet url]\<rparr>)"

definition time_sleep :: "nat \<Rightarrow> world \<Rightarrow> world" where
  "time_sleep n w = w\<lparr>trace := trace w @ [Sleep n]\<rparr>"

definition time_time :: "world \<Rightarrow> rat \<times> world" where
  "time_time w = (clock w (ticks w), w\<lparr>ticks := ticks w + 1\<rparr>)"

definition stdout_write :: "string \<Rightarrow> world \<Rightarrow> world" where
  "stdout_write s w = w\<lparr>trace := trace w @ [Stdout s]\<rparr>"

text \<open>\<^verbatim>\<open>print(s)\<close> writes the text and a newline.\<close>

definition print_line :: "string \<Rightarrow> world \<Rightarrow> world" where
  "print_line s w = stdout_write (s @ newline) w"

section \<open>The page fetcher\<close>

text \<open>
  \<^verbatim>\<open>fetch_page\<close>: the loop \<^verbatim>\<open>for attempt in range(max_retries)\<close> with its local
  \<^verbatim>\<open>retry_delay\<close>. The result \<open>None\<close> is Python's \<^verbatim>\<open>None\<close>.
\<close>

function fetch_attempts :: "string \<Rightarrow> nat \<Rightarrow> nat \<Rightarrow> nat \<Rightarrow> world \<Rightarrow> page_data option \<times> world" where
  "fetch_attempts url max_retries attempt retry_delay w =
     (if attempt < max_retries then
        (case requests_get url w of
           (Json data, w1) \<Rightarrow> (Some data, w1)
         | (RequestException e, w1) \<Rightarrow>
             if attempt < max_retries - 1 then
               fetch_attempts url max_retries (attempt + 1) (retry_delay * 2)
                 (time_sleep retry_delay
                   (print_line (''Error fetching data: '' @ e @ ''. Retrying in ''
                                @ str_nat retry_delay @ '' seconds...'') w1))
             else
               (None, print_line (''Failed to fetch data after '' @ str_nat max_retries
                                  @ '' attempts: '' @ e) w1))
      else (None, w))"
  by pat_completeness auto
termination
  by (relation "measure (\<lambda>(url, max_retries, attempt, retry_delay, w). max_retries - attempt)") auto

declare fetch_attempts.simps [simp del]

definition fetch_page :: "string \<Rightarrow> world \<Rightarrow> page_data option \<times> world" where
  "fetch_page url w = fetch_attempts url 3 0 2 w"

section \<open>The progress estimator\<close>

subsection \<open>String operations\<close>

text \<open>\<^verbatim>\<open>s.split(sep)\<close> for a one-character separator: never empty, \<^verbatim>\<open>"".split("&") == [""]\<close>.\<close>

fun split_on :: "char \<Rightarrow> string \<Rightarrow> string list" where
  "split_on sep [] = [[]]"
| "split_on sep (c # cs) =
     (if c = sep then [] # split_on sep cs
      else (case split_on sep cs of
              [] \<Rightarrow> [[c]]
            | seg # segs \<Rightarrow> (c # seg) # segs))"

definition startswith :: "string \<Rightarrow> string \<Rightarrow> bool" where
  "startswith s p \<longleftrightarrow> take (length p) s = p"

text \<open>
  \<^verbatim>\<open>int(s)\<close> on a string: white space is stripped at both ends, then comes an optional sign
  and decimal digits, where single underscores may separate digits; anything else raises
  \<^verbatim>\<open>ValueError\<close> (the result \<open>None\<close>). Characters are code points below 256, and the limit
  that newer interpreters put on the number of digits is not modelled.
\<close>

definition is_space :: "char \<Rightarrow> bool" where
  "is_space c \<longleftrightarrow> (of_char c :: nat) \<in> set [9, 10, 11, 12, 13, 28, 29, 30, 31, 32, 133, 160]"

definition is_digit :: "char \<Rightarrow> bool" where
  "is_digit c \<longleftrightarrow> 48 \<le> (of_char c :: nat) \<and> (of_char c :: nat) \<le> 57"

definition digit_val :: "char \<Rightarrow> nat" where
  "digit_val c = of_char c - 48"

definition strip :: "string \<Rightarrow> string" where
  "strip s = rev (dropWhile is_space (rev (dropWhile is_space s)))"

fun parse_digits :: "nat \<Rightarrow> string \<Rightarrow> nat option" where
  "parse_digits acc [] = Some acc"
| "parse_digits acc [c] = (if is_digit c then Some (10 * acc + digit_val c) else None)"
| "parse_digits acc (c # d # cs) =
     (if is_digit c then parse_digits (10 * acc + digit_val c) (d # cs)
      else if c = CHR ''_'' \<and> is_digit d then parse_digits (10 * acc + digit_val d) cs
      else None)"

definition parse_unsigned :: "string \<Rightarrow> nat option" where
  "parse_unsigned s =
     (case s of
        [] \<Rightarrow> None
      | c # cs \<Rightarrow> if is_digit c then parse_digits (digit_val c) cs else None)"

definition py_int :: "string \<Rightarrow> int option" where
  "py_int s =
     (case strip s of
        [] \<Rightarrow> None
      | c # cs \<Rightarrow>
          if c = CHR ''-'' then map_option (\<lambda>n. - int n) (parse_unsigned cs)
          else if c = CHR ''+'' then map_option int (parse_unsigned cs)
          else map_option int (parse_unsigned (c # cs)))"

subsection \<open>The collector object\<close>

record collector =
  start_date :: string
  routed_output :: string
  private_output :: string
  api_base :: string
  total_records :: nat
  total_routed :: nat
  total_private :: nat
  page :: nat
  start_time :: rat
  pages_processed :: nat
  estimated_total_pages :: "int option"

text \<open>\<^verbatim>\<open>__init__\<close>: the counters start at zero, the page number at one, and the clock is read.\<close>

definition init :: "string \<Rightarrow> string \<Rightarrow> string \<Rightarrow> string \<Rightarrow> world \<Rightarrow> collector \<times> world" where
  "init sd ro po ab w =
     (let (t, w1) = time_time w
      in (\<lparr>start_date = sd, routed_output = ro, private_output = po, api_base = ab,
           total_records = 0, total_routed = 0, total_private = 0, page = 1,
           start_time = t, pages_processed = 0, estimated_total_pages = None\<rparr>, w1))"

text \<open>The truth value of \<^verbatim>\<open>self.estimated_total_pages\<close>: neither \<^verbatim>\<open>None\<close> nor zero.\<close>

definition estimate_truthy :: "int option \<Rightarrow> bool" where
  "estimate_truthy e = (case e of None \<Rightarrow> False | Some n \<Rightarrow> n \<noteq> 0)"

subsection \<open>\<^verbatim>\<open>update_progress\<close>\<close>

text \<open>
  The body of the \<^verbatim>\<open>try\<close> block: \<open>Inr None\<close> when no segment starts with \<^verbatim>\<open>page=\<close>,
  \<open>Inr (Some n)\<close> when the page number is parsed, \<open>Inl\<close> the exception raised. A reference
  that is not a string has no \<^verbatim>\<open>split\<close> method.
\<close>

definition extract_total_pages :: "jval \<Rightarrow> py_error + int option" where
  "extract_total_pages last_url =
     (case last_url of
        JStr u \<Rightarrow>
          (let page_param = filter (\<lambda>p. startswith p ''page='') (split_on CHR ''&'' u)
           in case page_param of
                [] \<Rightarrow> Inr None
              | p # _ \<Rightarrow>
                  (case split_on CHR ''='' p of
                     _ # v # _ \<Rightarrow>
                       (case py_int v of None \<Rightarrow> Inl ValueError | Some n \<Rightarrow> Inr (Some n))
                   | _ \<Rightarrow> Inl IndexError))
      | _ \<Rightarrow> Inl AttributeError)"

text \<open>
  The result is the exception that leaves \<^verbatim>\<open>update_progress\<close>, if any, with the state at
  that moment. \<^verbatim>\<open>except (ValueError, IndexError): pass\<close> absorbs those two only.
\<close>

definition update_progress :: "page_data \<Rightarrow> collector \<Rightarrow> world \<Rightarrow> py_error option \<times> collector \<times> world" where
  "update_progress data self w =
     (let self1 = self\<lparr>pages_processed := pages_processed self + 1\<rparr>
      in if \<not> estimate_truthy (estimated_total_pages self1) then
           (case hydra_view data of
              None \<Rightarrow> (None, self1, w)
            | Some view \<Rightarrow>
                (case hydra_last view of
                   None \<Rightarrow> (None, self1, w)
                 | Some last_url \<Rightarrow>
                     (case extract_total_pages last_url of
                        Inr None \<Rightarrow> (None, self1, w)
                      | Inr (Some n) \<Rightarrow>
                          (None, self1\<lparr>estimated_total_pages := Some n\<rparr>,
                           print_line (''Estimated total pages: '' @ str_int n) w)
                      | Inl ValueError \<Rightarrow> (None, self1, w)
                      | Inl IndexError \<Rightarrow> (None, self1, w)
                      | Inl e \<Rightarrow> (Some e, self1, w))))
         else (None, self1, w))"

subsection \<open>\<^verbatim>\<open>estimate_completion\<close>\<close>

text \<open>\<^verbatim>\<open>int(x)\<close> truncates towards zero; \<^verbatim>\<open>x % m\<close> has the sign of \<open>m\<close>.\<close>

definition py_trunc :: "rat \<Rightarrow> int" where
  "py_trunc x = (if x < 0 then - \<lfloor>- x\<rfloor> else \<lfloor>x\<rfloor>)"

definition py_fmod :: "rat \<Rightarrow> rat \<Rightarrow> rat" where
  "py_fmod x m = x - m * of_int \<lfloor>x / m\<rfloor>"

text \<open>The format \<^verbatim>\<open>:.2f\<close>: two decimals, rounded to nearest, ties to even.\<close>

definition round_half_even :: "rat \<Rightarrow> int" where
  "round_half_even x =
     (let f = \<lfloor>x\<rfloor>; d = x - of_int f
      in if d < 1 / 2 then f else if 1 / 2 < d then f + 1 else if even f then f else f + 1)"

definition format_2f :: "rat \<Rightarrow> string" where
  "format_2f x =
     (let m = nat (round_half_even (\<bar>x\<bar> * 100))
      in (if x < 0 then ''-'' else '''') @ str_nat (m div 100) @ ''.''
         @ [digit_char (m mod 100 div 10), digit_char (m mod 10)])"

definition format_eta :: "rat \<Rightarrow> string" where
  "format_eta estimated_seconds_left =
     (if estimated_seconds_left < 60 then
        str_int (py_trunc estimated_seconds_left) @ '' seconds''
      else if estimated_seconds_left < 3600 then
        str_int (py_trunc (estimated_seconds_left / 60)) @ '' minutes''
      else
        (let hours = py_trunc (estimated_seconds_left / 3600);
             minutes = py_trunc (py_fmod estimated_seconds_left 3600 / 60)
         in str_int hours @ '' hours, '' @ str_int minutes @ '' minutes''))"

text \<open>
  The clock is read only when at least two pages have been processed. The last line divides
  by the average time per page, which raises \<^verbatim>\<open>ZeroDivisionError\<close> when that is zero.
\<close>

definition estimate_completion :: "collector \<Rightarrow> world \<Rightarrow> (py_error + string) \<times> world" where
  "estimate_completion self w =
     (if pages_processed self < 2 then (Inr ''Calculating...'', w)
      else
        (let (now, w1) = time_time w;
             elapsed_time = now - start_time self;
             avg_time_per_page = elapsed_time / of_nat (pages_processed self)
         in if estimate_truthy (estimated_total_pages self) then
              (let remaining_pages = the (estimated_total_pages self) - int (pages_processed self);
                   estimated_seconds_left = of_int remaining_pages * avg_time_per_page
               in (Inr (format_eta estimated_seconds_left), w1))
            else if avg_time_per_page = 0 then (Inl ZeroDivisionError, w1)
            else (Inr (''Processing '' @ format_2f (1 / avg_time_per_page) @ '' pages/second''), w1)))"

subsection \<open>\<^verbatim>\<open>display_progress\<close>\<close>

definition display_progress :: "collector \<Rightarrow> world \<Rightarrow> py_error option \<times> world" where
  "display_progress self w =
     (case estimate_completion self w of
        (Inl e, w1) \<Rightarrow> (Some e, w1)
      | (Inr eta, w1) \<Rightarrow>
          (None,
           stdout_write
             (''Page '' @ str_nat (page self) @ '' | ''
              @ ''Total routed spoofers: '' @ str_nat (total_routed self) @ '' | ''
              @ ''Total private spoofers: '' @ str_nat (total_private self) @ '' | ''
              @ ''ETA: '' @ eta)
             (stdout_write ([CHR 0x0D, CHR 0x1B] @ ''[K'') w1)))"

section \<open>The collection driver\<close>

text \<open>
  The state of \<^verbatim>\<open>collect_data\<close> inside its \<^verbatim>\<open>with\<close> block: the collector object, the
  environment and the two open file handles.
\<close>

record run =
  self :: collector
  env :: world
  routed_fh :: out_file
  private_fh :: out_file

text \<open>
  One pass through the body of \<^verbatim>\<open>while next_url:\<close> ends with \<^verbatim>\<open>break\<close>, with an
  exception, or at the end of the body with the new value of \<^verbatim>\<open>next_url\<close>
  (\<open>JNull\<close> is \<^verbatim>\<open>None\<close>).
\<close>

datatype step = Break run | Raise py_error run | Continue jval run

text \<open>\<^verbatim>\<open>if not data:\<close> holds for \<^verbatim>\<open>None\<close> and for the empty dictionary.\<close>

definition not_data :: "page_data option \<Rightarrow> bool" where
  "not_data d = (case d of None \<Rightarrow> True | Some data \<Rightarrow> \<not> page_truthy data)"

text \<open>The new \<^verbatim>\<open>next_url\<close>: the value under \<^verbatim>\<open>hydra:next\<close> when both keys are present.\<close>

definition has_next :: "page_data \<Rightarrow> bool" where
  "has_next data = (case hydra_view data of None \<Rightarrow> False | Some v \<Rightarrow> hydra_next v \<noteq> None)"

definition next_reference :: "page_data \<Rightarrow> jval" where
  "next_reference data =
     (case hydra_view data of
        None \<Rightarrow> JNull
      | Some v \<Rightarrow> (case hydra_next v of None \<Rightarrow> JNull | Some u \<Rightarrow> u))"

definition loop_body :: "jval \<Rightarrow> run \<Rightarrow> step" where
  "loop_body next_url r =
     (case fetch_page (api_base (self r) @ py_str next_url) (env r) of
        (d, w1) \<Rightarrow>
          if not_data d then
            Break (r\<lparr>env := print_line (newline @ ''Failed to fetch data. Stopping.'') w1\<rparr>)
          else
            (let data = the d
             in case update_progress data (self r) w1 of
                  (Some e, self1, w2) \<Rightarrow> Raise e (r\<lparr>self := self1, env := w2\<rparr>)
                | (None, self1, w2) \<Rightarrow>
                    (let acc = process_data data (routed_fh r) (private_fh r);
                         self2 = self1\<lparr>total_records := total_records self1 + length (members data),
                                       total_routed := total_routed self1 + routed_count acc,
                                       total_private := total_private self1 + private_count acc\<rparr>;
                         r2 = r\<lparr>routed_fh := routed_file acc, private_fh := private_file acc\<rparr>
                     in case display_progress self2 w2 of
                          (Some e, w3) \<Rightarrow> Raise e (r2\<lparr>self := self2, env := w3\<rparr>)
                        | (None, w3) \<Rightarrow>
                            if has_next data then
                              Continue (next_reference data)
                                (r2\<lparr>self := self2\<lparr>page := page self2 + 1\<rparr>, env := w3\<rparr>)
                            else Continue JNull (r2\<lparr>self := self2, env := w3\<rparr>))))"

text \<open>
  The \<^verbatim>\<open>while\<close> loop. It need not end (the API may hand out continuation references for
  ever), so the result is optional: \<open>None\<close> means that the loop runs for ever. A result
  \<open>Some (None, r)\<close> is the normal end of the loop, \<open>Some (Some e, r)\<close> an exception.
\<close>

partial_function (option) collect_loop :: "jval \<Rightarrow> run \<Rightarrow> (py_error option \<times> run) option" where
  "collect_loop next_url r =
     (if truthy next_url then
        (case loop_body next_url r of
           Break r1 \<Rightarrow> Some (None, r1)
         | Raise e r1 \<Rightarrow> Some (Some e, r1)
         | Continue next1 r1 \<Rightarrow> collect_loop next1 r1)
      else Some (None, r))"

declare collect_loop.simps [code]

text \<open>The last summary line shows \<^verbatim>\<open>str(timedelta(seconds=n))\<close> for an integer \<open>n\<close>; the
  elapsed time is taken to be within the range of \<^verbatim>\<open>timedelta\<close>.\<close>

definition two_digits :: "nat \<Rightarrow> string" where
  "two_digits n = (if n < 10 then CHR ''0'' # str_nat n else str_nat n)"

definition timedelta_str :: "int \<Rightarrow> string" where
  "timedelta_str n =
     (let days = n div 86400;
          seconds = nat (n mod 86400);
          s = str_nat (seconds div 3600) @ '':'' @ two_digits (seconds div 60 mod 60)
              @ '':'' @ two_digits (seconds mod 60)
      in if days \<noteq> 0
         then str_int days @ '' day'' @ (if \<bar>days\<bar> \<noteq> 1 then ''s'' else '''') @ '', '' @ s
         else s)"

definition file_header :: "collector \<Rightarrow> world \<Rightarrow> string" where
  "file_header c w =
     ''# IPv4 clients that can spoof - Data from CAIDA Spoofer API'' @ newline
     @ ''# Collection date: '' @ now_stamp w @ newline
     @ ''# Data period: '' @ start_date c @ '' to present'' @ newline
     @ ''# Format: Formatted text'' @ newline @ newline"

text \<open>The statements before the loop: the first URL, the two files opened and their headers.\<close>

definition first_url :: "collector \<Rightarrow> jval" where
  "first_url c = JStr (''/sessions?timestamp[after]='' @ start_date c)"

definition open_outputs :: "collector \<Rightarrow> world \<Rightarrow> run" where
  "open_outputs c w =
     (let w1 = print_line (''Starting data collection from '' @ start_date c @ '' to present...'') w;
          routed_file = \<lparr>content = [], is_closed = False\<rparr>;
          private_file = \<lparr>content = [], is_closed = False\<rparr>
      in \<lparr>self = c, env = w1,
          routed_fh = file_write routed_file (file_header c w1),
          private_fh = file_write private_file (file_header c w1)\<rparr>)"

text \<open>The statements after the \<^verbatim>\<open>with\<close> block: the final summary.\<close>

definition print_summary :: "collector \<Rightarrow> world \<Rightarrow> world" where
  "print_summary c w =
     (let (now, w1) = time_time w;
          elapsed_time = now - start_time c
      in print_line (''Total time: '' @ timedelta_str (py_trunc elapsed_time))
          (print_line (''Results saved to: '' @ routed_output c @ '' and '' @ private_output c)
            (print_line (''IPv4 clients that can spoof private addresses: '' @ str_nat (total_private c))
              (print_line (''IPv4 clients that can spoof routed addresses: '' @ str_nat (total_routed c))
                (print_line (''Total records processed: '' @ str_nat (total_records c))
                  (print_line (newline @ newline @ ''Data collection complete.'') w1))))))"

definition close_file :: "out_file \<Rightarrow> out_file" where
  "close_file f = f\<lparr>is_closed := True\<rparr>"

text \<open>
  \<^verbatim>\<open>collect_data\<close>. Leaving the \<^verbatim>\<open>with\<close> block closes both files, also when an exception
  leaves it; the summary is printed only when none does.
\<close>

definition collect_data :: "collector \<Rightarrow> world \<Rightarrow> (py_error option \<times> run) option" where
  "collect_data c w =
     (case collect_loop (first_url c) (open_outputs c w) of
        None \<Rightarrow> None
      | Some (Some e, r) \<Rightarrow>
          Some (Some e, r\<lparr>routed_fh := close_file (routed_fh r), private_fh := close_file (private_fh r)\<rparr>)
      | Some (None, r) \<Rightarrow>
          Some (None, r\<lparr>env := print_summary (self r) (env r),
                        routed_fh := close_file (routed_fh r),
                        private_fh := close_file (private_fh r)\<rparr>))"

text \<open>
  The loop head reached after \<open>n\<close> passes through the loop body that each processed a page
  and ended normally; \<open>None\<close> when the loop has ended before.
\<close>

fun iterate_loop :: "nat \<Rightarrow> jval \<Rightarrow> run \<Rightarrow> (jval \<times> run) option" where
  "iterate_loop 0 next_url r = Some (next_url, r)"
| "iterate_loop (Suc n) next_url r =
     (if truthy next_url then
        (case loop_body next_url r of
           Continue next1 r1 \<Rightarrow> iterate_loop n next1 r1
         | _ \<Rightarrow> None)
      else None)"

text \<open>The state carried by the outcome of a pass through the loop body.\<close>

fun after_step :: "step \<Rightarrow> run" where
  "after_step (Break r) = r"
| "after_step (Raise e r) = r"
| "after_step (Continue u r) = r"

section \<open>The estimate as the specification words it\<close>




section \<open>Example inputs\<close>

definition empty_acc :: page_acc where
  "empty_acc =
     \<lparr>routed_file = \<lparr>content = [], is_closed = False\<rparr>,
      private_file = \<lparr>content = [], is_closed = False\<rparr>,
      routed_count = 0, private_count = 0\<rparr>"

definition both_session :: session where
  "both_session =
     [''session'' \<mapsto> JInt 1001, ''client4'' \<mapsto> JStr ''192.0.2.0/24'',
      ''privatespoof'' \<mapsto> JStr ''received'', ''routedspoof'' \<mapsto> JStr ''received'']"

definition capital_session :: session where
  "capital_session =
     [''session'' \<mapsto> JInt 1002, ''client4'' \<mapsto> JStr ''192.0.2.0/24'',
      ''privatespoof'' \<mapsto> JStr ''received '', ''routedspoof'' \<mapsto> JStr ''Received'']"

definition no_client_session :: session where
  "no_client_session =
     [''session'' \<mapsto> JInt 1003,
      ''privatespoof'' \<mapsto> JStr ''received'', ''routedspoof'' \<mapsto> JStr ''received'']"

definition empty_client_session :: session where
  "empty_client_session =
     [''session'' \<mapsto> JInt 1004, ''client4'' \<mapsto> JStr [],
      ''privatespoof'' \<mapsto> JStr ''received'', ''routedspoof'' \<mapsto> JStr ''received'']"

definition no_id_session :: session where
  "no_id_session =
     [''client4'' \<mapsto> JStr ''192.0.2.0/24'', ''routedspoof'' \<mapsto> JStr ''received'']"

definition routed_session :: session where
  "routed_session =
     [''session'' \<mapsto> JInt 1001, ''asn4'' \<mapsto> JStr ''64496'', ''client4'' \<mapsto> JStr ''192.0.2.0/24'',
      ''country'' \<mapsto> JStr ''nld'', ''privatespoof'' \<mapsto> JStr ''blocked'',
      ''routedspoof'' \<mapsto> JStr ''received'', ''timestamp'' \<mapsto> JStr ''2024-05-01T10:00:00+00:00'']"

definition example_collector :: collector where
  "example_collector =
     \<lparr>start_date = ''2024-01-01'', routed_output = ''routed.txt'', private_output = ''private.txt'',
      api_base = ''https://api.spoofer.caida.org'',
      total_records = 0, total_routed = 0, total_private = 0, page = 1,
      start_time = 0, pages_processed = 0, estimated_total_pages = None\<rparr>"

text \<open>A world in which the \<open>k\<close>-th clock reading is \<open>10 * k\<close> and the first one has been used
  by \<^verbatim>\<open>__init__\<close>.\<close>

definition example_world :: "(nat \<Rightarrow> string \<Rightarrow> response) \<Rightarrow> world" where
  "example_world answers =
     \<lparr>net = answers, requests_made = 0, clock = (\<lambda>k. 10 * of_nat k), ticks = 1,
      now_stamp = ''2025-01-01 12:00:00'', trace = []\<rparr>"

definition page_with_next :: page_data where
  "page_with_next =
     \<lparr>hydra_member = Some [routed_session],
      hydra_view = Some \<lparr>hydra_next = Some (JStr ''/sessions?timestamp[after]=2024-01-01&page=2''),
                         hydra_last = Some (JStr ''/sessions?timestamp[after]=2024-01-01&page=7'')\<rparr>,
      other_keys = 3\<rparr>"

definition page_empty_next :: page_data where
  "page_empty_next =
     \<lparr>hydra_member = Some [],
      hydra_view = Some \<lparr>hydra_next = Some (JStr ''''), hydra_last = None\<rparr>,
      other_keys = 3\<rparr>"

definition page_null_last :: page_data where
  "page_null_last =
     \<lparr>hydra_member = Some [],
      hydra_view = Some \<lparr>hydra_next = None, hydra_last = Some JNull\<rparr>,
      other_keys = 3\<rparr>"



definition always_down :: "nat \<Rightarrow> string \<Rightarrow> response" where
  "always_down n url = RequestException ''timeout''"

definition third_time_lucky :: "nat \<Rightarrow> string \<Rightarrow> response" where
  "third_time_lucky n url = (if n = 2 then Json page_with_next else RequestException ''timeout'')"

definition one_page_then_down :: "nat \<Rightarrow> string \<Rightarrow> response" where
  "one_page_then_down n url = (if n = 0 then Json page_with_next else RequestException ''timeout'')"

definition always_page_with_next :: "nat \<Rightarrow> string \<Rightarrow> response" where
  "always_page_with_next n url = Json page_with_next"

definition always_empty_next :: "nat \<Rightarrow> string \<Rightarrow> response" where
  "always_empty_next n url = Json page_empty_next"

definition always_null_last :: "nat \<Rightarrow> string \<Rightarrow> response" where
  "always_null_last n url = Json page_null_last"

text \<open>A world whose clock stands still.\<close>

definition frozen_world :: world where
  "frozen_world = (example_world always_down)\<lparr>clock := (\<lambda>k. 0)\<rparr>"

text \<open>The states that the loop reaches on the first page of two of the example worlds, written
  out.\<close>

definition first_page_url :: string where
  "first_page_url = ''https://api.spoofer.caida.org/sessions?timestamp[after]=2024-01-01''"

definition second_page_url :: string where
  "second_page_url = ''https://api.spoofer.caida.org/sessions?timestamp[after]=2024-01-01&page=2''"

definition example_header :: string where
  "example_header =
     ''# IPv4 clients that can spoof - Data from CAIDA Spoofer API'' @ newline
     @ ''# Collection date: 2025-01-01 12:00:00'' @ newline
     @ ''# Data period: 2024-01-01 to present'' @ newline
     @ ''# Format: Formatted text'' @ newline @ newline"

definition routed_session_line :: string where
  "routed_session_line =
     ''Session: https://spoofer.caida.org/report.php?sessionid=1001, ASN4 number: 64496, Client4: 192.0.2.0/24, Country: nld, Privatespoof: blocked, Routedspoof: received, Timestamp: 2024-05-01T10:00:00+00:00''"

definition run_after_first_page :: run where
  "run_after_first_page =
     \<lparr>self = example_collector\<lparr>total_records := 1, total_routed := 1, page := 2,
                                 pages_processed := 1, estimated_total_pages := Some 7\<rparr>,
      env = (example_world one_page_then_down)
              \<lparr>requests_made := 1,
               trace := [Stdout (''Starting data collection from 2024-01-01 to present...'' @ newline),
                         HttpGet first_page_url,
                         Stdout (''Estimated total pages: 7'' @ newline),
                         Stdout ([CHR 0x0D, CHR 0x1B] @ ''[K''),
                         Stdout ''Page 1 | Total routed spoofers: 1 | Total private spoofers: 0 | ETA: Calculating...'']\<rparr>,
      routed_fh = \<lparr>content = example_header @ routed_session_line @ newline, is_closed = False\<rparr>,
      private_fh = \<lparr>content = example_header, is_closed = False\<rparr>\<rparr>"

definition run_after_empty_next :: run where
  "run_after_empty_next =
     \<lparr>self = example_collector\<lparr>page := 2, pages_processed := 1\<rparr>,
      env = (example_world always_empty_next)
              \<lparr>requests_made := 1,
               trace := [Stdout (''Starting data collection from 2024-01-01 to present...'' @ newline),
                         HttpGet first_page_url,
                         Stdout ([CHR 0x0D, CHR 0x1B] @ ''[K''),
                         Stdout ''Page 1 | Total routed spoofers: 0 | Total private spoofers: 0 | ETA: Calculating...'']\<rparr>,
      routed_fh = \<lparr>content = example_header, is_closed = False\<rparr>,
      private_fh = \<lparr>content = example_header, is_closed = False\<rparr>\<rparr>"

section \<open>Basic facts\<close>

lemma str_nat_digit: "n < 10 \<Longrightarrow> str_nat n = [digit_char n]"
  by (simp add: str_nat.simps)

lemma str_nat_2: "str_nat 2 = ''2''"
  and str_nat_3: "str_nat 3 = ''3''"
  and str_nat_4: "str_nat 4 = ''4''"
  by (simp_all add: str_nat_digit digit_char_def)

lemma dict_get_string: "dict_get s k = JStr v \<longleftrightarrow> s k = Some (JStr v)"
  by (simp add: dict_get_def split: option.splits)

lemma file_write_line_changes: "file_write f (s @ newline) \<noteq> f"
proof
  assume "file_write f (s @ newline) = f"
  then have "content (file_write f (s @ newline)) = content f" by simp
  then show False by (simp add: file_write_def newline_def)
qed

lemma process_sessions_append:
  "process_sessions (xs @ ys) acc = process_sessions ys (process_sessions xs acc)"
  by (induction xs arbitrary: acc) simp_all

lemma process_session_grows:
  "(\<exists>t. content (routed_file (process_session s acc)) = content (routed_file acc) @ t)
   \<and> (\<exists>t. content (private_file (process_session s acc)) = content (private_file acc) @ t)"
  by (simp add: process_session_def Let_def file_write_def)

lemma process_sessions_grows:
  "(\<exists>t. content (routed_file (process_sessions xs acc)) = content (routed_file acc) @ t)
   \<and> (\<exists>t. content (private_file (process_sessions xs acc)) = content (private_file acc) @ t)"
proof (induction xs arbitrary: acc)
  case Nil
  then show ?case by simp
next
  case (Cons s xs)
  obtain t1 t2 where
    1: "content (routed_file (process_session s acc)) = content (routed_file acc) @ t1"
    and 2: "content (private_file (process_session s acc)) = content (private_file acc) @ t2"
    using process_session_grows [of s acc] by auto
  obtain t3 t4 where
    "content (routed_file (process_sessions xs (process_session s acc)))
       = content (routed_file (process_session s acc)) @ t3"
    and "content (private_file (process_sessions xs (process_session s acc)))
       = content (private_file (process_session s acc)) @ t4"
    using Cons.IH [of "process_session s acc"] by auto
  then show ?case using 1 2 by simp
qed

subsection \<open>Rounding\<close>





subsection \<open>The estimator\<close>


lemma estimate_zero_elapsed:
  assumes "2 \<le> pages_processed c"
    and "\<not> estimate_truthy (estimated_total_pages c)"
    and "clock w (ticks w) = start_time c"
  shows "fst (estimate_completion c w) = Inl ZeroDivisionError"
  using assms
  by (simp add: estimate_completion_def time_time_def Let_def)

lemma split_on_not_Nil: "split_on sep s \<noteq> []"
  by (induction s) (auto split: list.splits)

lemma split_on_append:
  "sep \<notin> set a \<Longrightarrow>
   split_on sep (a @ b) = (a @ hd (split_on sep b)) # tl (split_on sep b)"
proof (induction a)
  case Nil
  then show ?case using split_on_not_Nil [of sep b] by simp
next
  case (Cons c a)
  then show ?case by auto
qed


lemma split_page_param:
  assumes "startswith p ''page=''"
  shows "\<exists>q. split_on CHR ''='' p = ''page'' # split_on CHR ''='' q"
proof -
  have "take (length ''page='') p = ''page=''"
    using assms unfolding startswith_def .
  then have "''page='' @ drop (length ''page='') p = p"
    using append_take_drop_id [of "length ''page=''" p] by (simp only:)
  then obtain q where "p = ''page'' @ CHR ''='' # q"
    by (metis append_Cons append_Nil)
  then have "split_on CHR ''='' p = split_on CHR ''='' (''page'' @ CHR ''='' # q)"
    by simp
  also have "\<dots> = ''page'' # split_on CHR ''='' q"
    by (subst split_on_append) simp_all
  finally show ?thesis by blast
qed

text \<open>On a string, the extraction raises nothing but \<^verbatim>\<open>ValueError\<close>: the \<^verbatim>\<open>IndexError\<close>
  that the handler also names cannot arise.\<close>

lemma extract_string_result:
  assumes "extract_total_pages (JStr u) = Inl e"
  shows "e = ValueError"
proof (cases "filter (\<lambda>p. startswith p ''page='') (split_on CHR ''&'' u)")
  case Nil
  then show ?thesis using assms by (simp add: extract_total_pages_def)
next
  case (Cons p ps)
  then have "p \<in> set (filter (\<lambda>p. startswith p ''page='') (split_on CHR ''&'' u))"
    by simp
  then have "startswith p ''page=''" by simp
  then obtain q where sp: "split_on CHR ''='' p = ''page'' # split_on CHR ''='' q"
    using split_page_param by blast
  obtain v vs where "split_on CHR ''='' q = v # vs"
    using split_on_not_Nil [of "CHR ''=''" q] by (cases "split_on CHR ''='' q") auto
  then show ?thesis using assms Cons sp
    by (auto simp add: extract_total_pages_def split: option.splits)
qed

text \<open>A \<^verbatim>\<open>hydra:last\<close> reference that is a string never makes \<^verbatim>\<open>update_progress\<close> raise,
  however malformed it is.\<close>

lemma update_progress_string_last:
  assumes "hydra_view data = Some v" and "hydra_last v = Some (JStr u)"
  shows "fst (update_progress data c w) = None"
proof (cases "extract_total_pages (JStr u)")
  case (Inl e)
  then have "e = ValueError" by (rule extract_string_result)
  then show ?thesis using assms Inl by (simp add: update_progress_def Let_def)
next
  case (Inr r)
  then show ?thesis using assms
    by (cases r) (simp_all add: update_progress_def Let_def)
qed


text \<open>A page number that \<^verbatim>\<open>int\<close> rejects leaves the estimate as it was.\<close>

lemma update_progress_value_error:
  assumes "\<not> estimate_truthy (estimated_total_pages c)"
    and "hydra_view data = Some v" and "hydra_last v = Some last_url"
    and "extract_total_pages last_url = Inl ValueError"
  shows "update_progress data c w = (None, c\<lparr>pages_processed := pages_processed c + 1\<rparr>, w)"
  using assms by (simp add: update_progress_def Let_def)

text \<open>A reference that is not a string raises \<^verbatim>\<open>AttributeError\<close>, which the handler does
  not absorb.\<close>

lemma update_progress_not_string:
  assumes "\<not> estimate_truthy (estimated_total_pages c)"
    and "hydra_view data = Some v" and "hydra_last v = Some last_url"
    and "\<forall>u. last_url \<noteq> JStr u"
  shows "update_progress data c w =
           (Some AttributeError, c\<lparr>pages_processed := pages_processed c + 1\<rparr>, w)"
proof -
  have "extract_total_pages last_url = Inl AttributeError"
    using assms(4) by (cases last_url) (simp_all add: extract_total_pages_def)
  then show ?thesis using assms(1-3) by (simp add: update_progress_def Let_def)
qed


text \<open>A reference that is a string and yields no page number leaves the estimate as it was,
  without an exception.\<close>

lemma update_progress_malformed_string:
  assumes "\<not> estimate_truthy (estimated_total_pages c)"
    and "hydra_view data = Some v" and "hydra_last v = Some (JStr u)"
    and "\<forall>n. extract_total_pages (JStr u) \<noteq> Inr (Some n)"
  shows "update_progress data c w = (None, c\<lparr>pages_processed := pages_processed c + 1\<rparr>, w)"
proof (cases "extract_total_pages (JStr u)")
  case (Inl e)
  then have "e = ValueError" by (rule extract_string_result)
  with Inl have "extract_total_pages (JStr u) = Inl ValueError" by simp
  with assms(1-3) show ?thesis by (rule update_progress_value_error)
next
  case (Inr r)
  with assms(4) have "r = None" by (cases r) auto
  with Inr assms(1-3) show ?thesis by (simp add: update_progress_def Let_def)
qed

text \<open>The example collector is what \<^verbatim>\<open>__init__\<close> builds in the example world.\<close>

lemma example_collector_init:
  "init ''2024-01-01'' ''routed.txt'' ''private.txt'' ''https://api.spoofer.caida.org''
     ((example_world answers)\<lparr>ticks := 0\<rparr>)
   = (example_collector, example_world answers)"
  by (simp add: init_def time_time_def example_world_def example_collector_def)

subsection \<open>The driver\<close>

text \<open>Every call of \<^verbatim>\<open>fetch_page\<close> starts with an HTTP request for its URL; the clock is
  not read.\<close>

lemma fetch_page_trace:
  "\<exists>t. trace (snd (fetch_page url w)) = trace w @ HttpGet url # t"
  by (simp add: fetch_page_def fetch_attempts.simps requests_get_def time_sleep_def
      print_line_def stdout_write_def split: response.splits)

lemma fetch_page_clock:
  "clock (snd (fetch_page url w)) = clock w \<and> ticks (snd (fetch_page url w)) = ticks w"
  by (simp add: fetch_page_def fetch_attempts.simps requests_get_def time_sleep_def
      print_line_def stdout_write_def split: response.splits)

lemma update_progress_trace:
  "\<exists>t. trace (snd (snd (update_progress data c w))) = trace w @ t"
  by (simp add: update_progress_def Let_def print_line_def stdout_write_def
      split: option.splits sum.splits py_error.splits)

lemma display_progress_trace:
  "\<exists>t. trace (snd (display_progress c w)) = trace w @ t"
  by (simp add: display_progress_def estimate_completion_def time_time_def Let_def
      stdout_write_def split: prod.splits sum.splits)

text \<open>A pass through the loop body starts with the request for the current URL.\<close>

lemma loop_body_trace:
  "\<exists>t. trace (env (after_step (loop_body u r))) =
         trace (env r) @ HttpGet (api_base (self r) @ py_str u) # t"
proof -
  let ?url = "api_base (self r) @ py_str u"
  obtain d w1 where f: "fetch_page ?url (env r) = (d, w1)" by (cases "fetch_page ?url (env r)")
  obtain t1 where t1: "trace w1 = trace (env r) @ HttpGet ?url # t1"
    using fetch_page_trace [of ?url "env r"] f by auto
  show ?thesis
  proof (cases "not_data d")
    case True
    then show ?thesis using f t1
      by (simp add: loop_body_def print_line_def stdout_write_def)
  next
    case False
    obtain e c1 w2 where u: "update_progress (the d) (self r) w1 = (e, c1, w2)"
      by (cases "update_progress (the d) (self r) w1")
    obtain t2 where t2: "trace w2 = trace w1 @ t2"
      using update_progress_trace [of "the d" "self r" w1] u by auto
    show ?thesis
    proof (cases e)
      case (Some err)
      then show ?thesis using f False u t1 t2 by (simp add: loop_body_def Let_def)
    next
      case None
      let ?acc = "process_data (the d) (routed_fh r) (private_fh r)"
      let ?c2 = "c1\<lparr>total_records := total_records c1 + length (members (the d)),
                      total_routed := total_routed c1 + routed_count ?acc,
                      total_private := total_private c1 + private_count ?acc\<rparr>"
      obtain e3 w3 where dp: "display_progress ?c2 w2 = (e3, w3)"
        by (cases "display_progress ?c2 w2")
      obtain t3 where t3: "trace w3 = trace w2 @ t3"
        using display_progress_trace [of ?c2 w2] dp by auto
      show ?thesis using f False u None dp t1 t2 t3
        by (cases e3) (simp_all add: loop_body_def Let_def)
    qed
  qed
qed

text \<open>The loop run from the start is the loop run from any loop head that it reaches.\<close>

lemma collect_loop_iterate:
  "iterate_loop n u r = Some (u', r') \<Longrightarrow> collect_loop u r = collect_loop u' r'"
proof (induction n arbitrary: u r)
  case 0
  then show ?case by simp
next
  case (Suc n)
  then show ?case
    by (subst collect_loop.simps) (auto split: if_splits step.splits)
qed

lemma loop_body_Continue:
  assumes "loop_body u r = Continue u' r'"
  shows "\<exists>data. fst (fetch_page (api_base (self r) @ py_str u) (env r)) = Some data
               \<and> page_truthy data \<and> u' = next_reference data"
proof -
  let ?url = "api_base (self r) @ py_str u"
  obtain d w1 where f: "fetch_page ?url (env r) = (d, w1)" by (cases "fetch_page ?url (env r)")
  have nd: "\<not> not_data d" using assms f by (auto simp add: loop_body_def)
  then obtain data where d: "d = Some data" and pt: "page_truthy data"
    by (cases d) (simp_all add: not_data_def)
  have "u' = next_reference data"
    using assms f nd d
    by (auto simp add: loop_body_def Let_def has_next_def next_reference_def
        split: prod.splits option.splits if_splits)
  then show ?thesis using f d pt by simp
qed

lemma loop_body_Break:
  assumes "fst (fetch_page (api_base (self r) @ py_str u) (env r)) = None"
  shows "loop_body u r =
           Break (r\<lparr>env := print_line (newline @ ''Failed to fetch data. Stopping.'')
                              (snd (fetch_page (api_base (self r) @ py_str u) (env r)))\<rparr>)"
proof -
  obtain d w1 where f: "fetch_page (api_base (self r) @ py_str u) (env r) = (d, w1)"
    by (cases "fetch_page (api_base (self r) @ py_str u) (env r)")
  then have "d = None" using assms by simp
  then show ?thesis using f by (simp add: loop_body_def not_data_def)
qed

text \<open>The loop only appends to the two files.\<close>

lemma loop_body_files_grow:
  assumes "loop_body u r = Continue u' r'"
  shows "(\<exists>t. content (routed_fh r') = content (routed_fh r) @ t)
         \<and> (\<exists>t. content (private_fh r') = content (private_fh r) @ t)"
proof -
  let ?url = "api_base (self r) @ py_str u"
  obtain d w1 where f: "fetch_page ?url (env r) = (d, w1)" by (cases "fetch_page ?url (env r)")
  have nd: "\<not> not_data d" using assms f by (auto simp add: loop_body_def)
  let ?acc = "process_data (the d) (routed_fh r) (private_fh r)"
  have "routed_fh r' = routed_file ?acc \<and> private_fh r' = private_file ?acc"
    using assms f nd
    by (auto simp add: loop_body_def Let_def split: prod.splits option.splits if_splits)
  then show ?thesis
    using process_sessions_grows [of "members (the d)"
        "\<lparr>routed_file = routed_fh r, private_file = private_fh r, routed_count = 0, private_count = 0\<rparr>"]
    by (simp add: process_data_def)
qed

lemma iterate_loop_files_grow:
  "iterate_loop n u r = Some (u', r') \<Longrightarrow>
   (\<exists>t. content (routed_fh r') = content (routed_fh r) @ t)
   \<and> (\<exists>t. content (private_fh r') = content (private_fh r) @ t)"
proof (induction n arbitrary: u r)
  case 0
  then show ?case by simp
next
  case (Suc n)
  from Suc.prems obtain u1 r1 where
    b: "loop_body u r = Continue u1 r1" and i: "iterate_loop n u1 r1 = Some (u', r')"
    by (auto split: if_splits step.splits)
  from loop_body_files_grow [OF b] obtain t1 t2 where
    "content (routed_fh r1) = content (routed_fh r) @ t1"
    and "content (private_fh r1) = content (private_fh r) @ t2" by auto
  moreover from Suc.IH [OF i] obtain t3 t4 where
    "content (routed_fh r') = content (routed_fh r1) @ t3"
    and "content (private_fh r') = content (private_fh r1) @ t4" by auto
  ultimately show ?case by simp
qed

text \<open>The summary prints six lines and sends no request.\<close>

lemma print_summary_effect:
  "requests_made (print_summary c w) = requests_made w
   \<and> trace (print_summary c w) = trace w @ map Stdout
       [newline @ newline @ ''Data collection complete.'' @ newline,
        ''Total records processed: '' @ str_nat (total_records c) @ newline,
        ''IPv4 clients that can spoof routed addresses: '' @ str_nat (total_routed c) @ newline,
        ''IPv4 clients that can spoof private addresses: '' @ str_nat (total_private c) @ newline,
        ''Results saved to: '' @ routed_output c @ '' and '' @ private_output c @ newline,
        ''Total time: '' @ timedelta_str (py_trunc (clock w (ticks w) - start_time c)) @ newline]"
  by (simp add: print_summary_def time_time_def print_line_def stdout_write_def Let_def)

section \<open>The claims of the specification\<close>

subsection \<open>Evaluations\<close>

text \<open>The first pass through the loop body in the example worlds, evaluated.\<close>

lemma both_session_line:
  "format_record both_session =
     ''Session: https://spoofer.caida.org/report.php?sessionid=1001, ASN4 number: N/A, Client4: 192.0.2.0/24, Country: N/A, Privatespoof: received, Routedspoof: received, Timestamp: N/A''"
  by (simp add: format_record_def both_session_def dict_get_def dict_get_default_def
      str_int_def str_nat.simps digit_char_def)

lemma str_nat_0: "str_nat 0 = ''0''"
  and str_nat_1: "str_nat 1 = ''1''"
  and str_nat_Suc_0: "str_nat (Suc 0) = ''1''"
  by (simp_all add: str_nat_digit digit_char_def)

lemma routed_session_formatted: "format_record routed_session = routed_session_line"
  by code_simp

lemma example_last_page_number:
  "extract_total_pages (JStr ''/sessions?timestamp[after]=2024-01-01&page=7'') = Inr (Some 7)"
  by code_simp

lemma str_int_7: "str_int 7 = ''7''"
  by code_simp

lemma first_page_loop_body:
  "loop_body (first_url example_collector) (open_outputs example_collector (example_world one_page_then_down))
     = Continue (JStr ''/sessions?timestamp[after]=2024-01-01&page=2'') run_after_first_page"
  by (simp add: loop_body_def fetch_page_def fetch_attempts.simps requests_get_def
      open_outputs_def example_world_def one_page_then_down_def not_data_def page_truthy_def
      print_line_def stdout_write_def Let_def first_url_def example_collector_def
      page_with_next_def update_progress_def estimate_truthy_def example_last_page_number
      str_int_7 process_data_def members_def process_session_def dict_get_def
      routed_session_formatted display_progress_def estimate_completion_def
      str_nat_0 str_nat_1 str_nat_Suc_0 has_next_def next_reference_def run_after_first_page_def
      file_write_def file_header_def example_header_def first_page_url_def
      routed_session_def [THEN fun_cong])

lemma first_page_loop_body_empty_next:
  "loop_body (first_url example_collector) (open_outputs example_collector (example_world always_empty_next))
     = Continue (JStr '''') run_after_empty_next"
  by (simp add: loop_body_def fetch_page_def fetch_attempts.simps requests_get_def
      open_outputs_def example_world_def always_empty_next_def not_data_def page_truthy_def
      print_line_def stdout_write_def Let_def first_url_def example_collector_def
      page_empty_next_def update_progress_def estimate_truthy_def
      process_data_def members_def display_progress_def estimate_completion_def
      str_nat_0 str_nat_1 str_nat_Suc_0 has_next_def next_reference_def run_after_empty_next_def
      file_write_def file_header_def example_header_def first_page_url_def)

lemma second_page_fetch_fails:
  "fetch_page (api_base (self run_after_first_page)
               @ py_str (JStr ''/sessions?timestamp[after]=2024-01-01&page=2''))
     (env run_after_first_page)
   = (None,
      (env run_after_first_page)
        \<lparr>requests_made := 4,
         trace := trace (env run_after_first_page) @
           [HttpGet second_page_url,
            Stdout (''Error fetching data: timeout. Retrying in 2 seconds...'' @ newline),
            Sleep 2,
            HttpGet second_page_url,
            Stdout (''Error fetching data: timeout. Retrying in 4 seconds...'' @ newline),
            Sleep 4,
            HttpGet second_page_url,
            Stdout (''Failed to fetch data after 3 attempts: timeout'' @ newline)]\<rparr>)"
  by (simp add: fetch_page_def fetch_attempts.simps requests_get_def time_sleep_def
      print_line_def stdout_write_def str_nat_2 str_nat_3 str_nat_4
      run_after_first_page_def example_world_def one_page_then_down_def example_collector_def
      second_page_url_def)

lemma ten_seconds: "timedelta_str (py_trunc 10) = ''0:00:10''"
  by code_simp

lemma first_fetch_with_next:
  "fst (fetch_page (api_base (self (open_outputs example_collector (example_world one_page_then_down)))
                    @ py_str (first_url example_collector))
         (env (open_outputs example_collector (example_world one_page_then_down))))
     = Some page_with_next"
  by (simp add: fetch_page_def fetch_attempts.simps requests_get_def open_outputs_def
      example_world_def one_page_then_down_def Let_def print_line_def stdout_write_def)

lemma first_fetch_empty_next:
  "fst (fetch_page (api_base (self (open_outputs example_collector (example_world always_empty_next)))
                    @ py_str (first_url example_collector))
         (env (open_outputs example_collector (example_world always_empty_next))))
     = Some page_empty_next"
  by (simp add: fetch_page_def fetch_attempts.simps requests_get_def open_outputs_def
      example_world_def always_empty_next_def Let_def print_line_def stdout_write_def)

subsection \<open>The record classifier\<close>

text \<open>
  Claim C1. For every eligible session record (the client IPv4 address is present and not
  empty, which is what the truth test of \<^verbatim>\<open>session.get("client4")\<close> asks), one pass of the
  classifier appends a line to the routed output if and only if the routed-spoof field is
  exactly the string \<^verbatim>\<open>received\<close>, and independently appends a line to the private output
  if and only if the private-spoof field is exactly \<^verbatim>\<open>received\<close>. A record with both
  gets one line in each file, and both lines are the same formatted text followed by a
  newline. The comparison is equality of strings: no change of case, no trimming.
\<close>

theorem classifier_writes_iff_received:
  assumes "truthy (dict_get s ''client4'')"
  shows "process_session s acc =
           acc\<lparr>routed_file :=
                  (if s ''routedspoof'' = Some (JStr ''received'')
                   then file_write (routed_file acc) (format_record s @ newline)
                   else routed_file acc),
               routed_count :=
                  (if s ''routedspoof'' = Some (JStr ''received'')
                   then routed_count acc + 1 else routed_count acc),
               private_file :=
                  (if s ''privatespoof'' = Some (JStr ''received'')
                   then file_write (private_file acc) (format_record s @ newline)
                   else private_file acc),
               private_count :=
                  (if s ''privatespoof'' = Some (JStr ''received'')
                   then private_count acc + 1 else private_count acc)\<rparr>
         \<and> (routed_file (process_session s acc) \<noteq> routed_file acc
              \<longleftrightarrow> s ''routedspoof'' = Some (JStr ''received''))
         \<and> (private_file (process_session s acc) \<noteq> private_file acc
              \<longleftrightarrow> s ''privatespoof'' = Some (JStr ''received''))"
  using assms
  by (simp add: process_session_def Let_def dict_get_string file_write_line_changes)

text \<open>The theorem at a record with both fields \<^verbatim>\<open>received\<close>, and at a record whose fields
  are \<^verbatim>\<open>Received\<close> and \<^verbatim>\<open>received\<close> with a trailing blank.\<close>

theorem classifier_writes_iff_received_witness:
  "truthy (dict_get both_session ''client4'')
   \<and> truthy (dict_get capital_session ''client4'')
   \<and> process_session both_session empty_acc =
       \<lparr>routed_file = \<lparr>content = ''Session: https://spoofer.caida.org/report.php?sessionid=1001, ASN4 number: N/A, Client4: 192.0.2.0/24, Country: N/A, Privatespoof: received, Routedspoof: received, Timestamp: N/A'' @ newline, is_closed = False\<rparr>,
        private_file = \<lparr>content = ''Session: https://spoofer.caida.org/report.php?sessionid=1001, ASN4 number: N/A, Client4: 192.0.2.0/24, Country: N/A, Privatespoof: received, Routedspoof: received, Timestamp: N/A'' @ newline, is_closed = False\<rparr>,
        routed_count = 1, private_count = 1\<rparr>
   \<and> process_session capital_session empty_acc = empty_acc"
proof -
  have h1: "truthy (dict_get both_session ''client4'')"
    by (simp add: both_session_def dict_get_def)
  have h2: "truthy (dict_get capital_session ''client4'')"
    by (simp add: capital_session_def dict_get_def)
  have r1: "both_session ''routedspoof'' = Some (JStr ''received'')"
    and p1: "both_session ''privatespoof'' = Some (JStr ''received'')"
    by (simp_all add: both_session_def)
  have r2: "capital_session ''routedspoof'' \<noteq> Some (JStr ''received'')"
    and p2: "capital_session ''privatespoof'' \<noteq> Some (JStr ''received'')"
    by (simp_all add: capital_session_def)
  show ?thesis
    using h1 h2 classifier_writes_iff_received [OF h1, of empty_acc]
      classifier_writes_iff_received [OF h2, of empty_acc]
    by (simp add: r1 p1 r2 p2 both_session_line file_write_def empty_acc_def)
qed

text \<open>
  Claim C4. A session record whose client IPv4 address is absent or empty (its truth test
  fails) makes the classifier write nothing to either file and count nothing, whatever its
  other fields are: the pass over the record leaves the files and counts as they were, and a
  page gives the same files and counts with the record as without it.
\<close>

theorem classifier_skips_without_client_address:
  assumes "\<not> truthy (dict_get s ''client4'')"
  shows "process_session s acc = acc
         \<and> process_sessions (before @ s # after) acc = process_sessions (before @ after) acc"
  using assms by (simp add: process_session_def process_sessions_append)

text \<open>The theorem at a record without a client address and at one whose client address is the
  empty string, both with the two spoof fields \<^verbatim>\<open>received\<close>.\<close>

theorem classifier_skips_without_client_address_witness:
  "\<not> truthy (dict_get no_client_session ''client4'')
   \<and> no_client_session ''routedspoof'' = Some (JStr ''received'')
   \<and> no_client_session ''privatespoof'' = Some (JStr ''received'')
   \<and> process_session no_client_session empty_acc = empty_acc
   \<and> process_sessions ([both_session] @ no_client_session # [capital_session]) empty_acc
       = process_sessions ([both_session] @ [capital_session]) empty_acc
   \<and> \<not> truthy (dict_get empty_client_session ''client4'')
   \<and> empty_client_session ''routedspoof'' = Some (JStr ''received'')
   \<and> process_session empty_client_session empty_acc = empty_acc"
proof -
  have h: "\<not> truthy (dict_get no_client_session ''client4'')"
    by (simp add: no_client_session_def dict_get_def)
  have h2: "\<not> truthy (dict_get empty_client_session ''client4'')"
    by (simp add: empty_client_session_def dict_get_def)
  have "no_client_session ''routedspoof'' = Some (JStr ''received'')"
    and "no_client_session ''privatespoof'' = Some (JStr ''received'')"
    and "empty_client_session ''routedspoof'' = Some (JStr ''received'')"
    by (simp_all add: no_client_session_def empty_client_session_def)
  then show ?thesis
    using h h2 classifier_skips_without_client_address
      [OF h, of empty_acc "[both_session]" "[capital_session]"]
      classifier_skips_without_client_address [OF h2, of empty_acc "[]" "[]"]
    by simp
qed

text \<open>
  Claim C9. The claim is that every field missing from a record, the session identifier
  included, is rendered as \<^verbatim>\<open>N/A\<close>. The code gives the default \<^verbatim>\<open>"N/A"\<close> to six fields
  and none to \<^verbatim>\<open>session.get("session")\<close>: for a record without a session identifier the
  line written reads \<^verbatim>\<open>sessionid=None\<close>.
\<close>

theorem format_record_missing_session_id:
  "no_id_session ''session'' = None
   \<and> process_session no_id_session empty_acc =
       empty_acc\<lparr>routed_file := \<lparr>content = ''Session: https://spoofer.caida.org/report.php?sessionid=None, ASN4 number: N/A, Client4: 192.0.2.0/24, Country: N/A, Privatespoof: N/A, Routedspoof: received, Timestamp: N/A'' @ newline, is_closed = False\<rparr>,
                 routed_count := 1\<rparr>"
  by (simp add: process_session_def no_id_session_def empty_acc_def dict_get_def
      dict_get_default_def format_record_def file_write_def Let_def)

subsection \<open>The page fetcher\<close>

text \<open>
  Claim C3. When the first two attempts for a URL raise a request exception and the third
  succeeds, \<^verbatim>\<open>fetch_page\<close> makes exactly three requests, sleeps 2 after the first failure
  and 4 after the second, and returns the parsed document. When all three attempts fail, it
  makes three requests with the same two sleeps, prints the failure notice and returns
  \<^verbatim>\<open>None\<close>.
\<close>

theorem fetch_page_retry_schedule:
  "(net w (requests_made w) url = RequestException e1 \<and>
    net w (requests_made w + 1) url = RequestException e2 \<and>
    net w (requests_made w + 2) url = Json data
    \<longrightarrow> fetch_page url w =
          (Some data,
           w\<lparr>requests_made := requests_made w + 3,
             trace := trace w @
               [HttpGet url,
                Stdout (''Error fetching data: '' @ e1 @ ''. Retrying in 2 seconds...'' @ newline),
                Sleep 2,
                HttpGet url,
                Stdout (''Error fetching data: '' @ e2 @ ''. Retrying in 4 seconds...'' @ newline),
                Sleep 4,
                HttpGet url]\<rparr>))
   \<and>
   (net w (requests_made w) url = RequestException e1 \<and>
    net w (requests_made w + 1) url = RequestException e2 \<and>
    net w (requests_made w + 2) url = RequestException e3
    \<longrightarrow> fetch_page url w =
          (None,
           w\<lparr>requests_made := requests_made w + 3,
             trace := trace w @
               [HttpGet url,
                Stdout (''Error fetching data: '' @ e1 @ ''. Retrying in 2 seconds...'' @ newline),
                Sleep 2,
                HttpGet url,
                Stdout (''Error fetching data: '' @ e2 @ ''. Retrying in 4 seconds...'' @ newline),
                Sleep 4,
                HttpGet url,
                Stdout (''Failed to fetch data after 3 attempts: '' @ e3 @ newline)]\<rparr>))"
  by (simp add: fetch_page_def fetch_attempts.simps requests_get_def time_sleep_def
      print_line_def stdout_write_def str_nat_2 str_nat_3 str_nat_4)

text \<open>The theorem in a world whose third request succeeds and in one where every request
  fails.\<close>

theorem fetch_page_retry_schedule_witness:
  "net (example_world third_time_lucky) 0 ''u'' = RequestException ''timeout''
   \<and> net (example_world third_time_lucky) 1 ''u'' = RequestException ''timeout''
   \<and> net (example_world third_time_lucky) 2 ''u'' = Json page_with_next
   \<and> fst (fetch_page ''u'' (example_world third_time_lucky)) = Some page_with_next
   \<and> trace (snd (fetch_page ''u'' (example_world third_time_lucky))) =
       [HttpGet ''u'',
        Stdout (''Error fetching data: timeout. Retrying in 2 seconds...'' @ newline),
        Sleep 2,
        HttpGet ''u'',
        Stdout (''Error fetching data: timeout. Retrying in 4 seconds...'' @ newline),
        Sleep 4,
        HttpGet ''u'']
   \<and> net (example_world always_down) 2 ''u'' = RequestException ''timeout''
   \<and> fst (fetch_page ''u'' (example_world always_down)) = None
   \<and> trace (snd (fetch_page ''u'' (example_world always_down))) =
       [HttpGet ''u'',
        Stdout (''Error fetching data: timeout. Retrying in 2 seconds...'' @ newline),
        Sleep 2,
        HttpGet ''u'',
        Stdout (''Error fetching data: timeout. Retrying in 4 seconds...'' @ newline),
        Sleep 4,
        HttpGet ''u'',
        Stdout (''Failed to fetch data after 3 attempts: timeout'' @ newline)]"
  using fetch_page_retry_schedule
      [of "example_world third_time_lucky" "''u''" "''timeout''" "''timeout''" page_with_next "''x''"]
    fetch_page_retry_schedule
      [of "example_world always_down" "''u''" "''timeout''" "''timeout''" page_with_next "''timeout''"]
  by (simp add: example_world_def third_time_lucky_def always_down_def)

subsection \<open>The progress estimator\<close>

text \<open>
  Claim C7. With fewer than two pages processed, \<^verbatim>\<open>estimate_completion\<close> returns the
  placeholder \<^verbatim>\<open>Calculating...\<close>, without reading the clock, whether or not the total-page
  estimate is known.
\<close>

theorem eta_placeholder_below_two_pages:
  assumes "pages_processed c < 2"
  shows "estimate_completion c w = (Inr ''Calculating...'', w)"
  using assms by (simp add: estimate_completion_def)

text \<open>The theorem after one page, with a known estimate.\<close>

theorem eta_placeholder_below_two_pages_witness:
  "pages_processed (example_collector\<lparr>pages_processed := 1, estimated_total_pages := Some 7\<rparr>) < 2
   \<and> estimate_completion (example_collector\<lparr>pages_processed := 1, estimated_total_pages := Some 7\<rparr>)
        (example_world always_down)
      = (Inr ''Calculating...'', example_world always_down)"
proof -
  have h: "pages_processed (example_collector\<lparr>pages_processed := 1, estimated_total_pages := Some 7\<rparr>) < 2"
    by simp
  show ?thesis
    using h eta_placeholder_below_two_pages [OF h, of "example_world always_down"] by simp
qed




text \<open>
  Claim C8. The claim is that a malformed \<^verbatim>\<open>hydra:last\<close> reference never makes
  \<^verbatim>\<open>update_progress\<close> raise and leaves the estimate unset, and that later estimates with
  at least two pages processed are the throughput message. For a reference that is a string
  the first half holds (\<open>update_progress_string_last\<close>, \<open>update_progress_malformed_string\<close>,
  \<open>update_progress_value_error\<close>). But the handler absorbs \<^verbatim>\<open>ValueError\<close> and
  \<^verbatim>\<open>IndexError\<close> only: a reference that is not a string, such as JSON \<^verbatim>\<open>null\<close>, has no
  \<^verbatim>\<open>split\<close>, and the \<^verbatim>\<open>AttributeError\<close> leaves \<^verbatim>\<open>update_progress\<close> and
  \<^verbatim>\<open>collect_data\<close>. And the throughput message divides by the average time per page, so
  it raises \<^verbatim>\<open>ZeroDivisionError\<close> when the clock has not moved since the start.
\<close>

theorem malformed_last_reference_raises:
  "update_progress page_null_last example_collector (example_world always_null_last)
     = (Some AttributeError, example_collector\<lparr>pages_processed := 1\<rparr>, example_world always_null_last)
   \<and> map_option fst (collect_data example_collector (example_world always_null_last))
       = Some (Some AttributeError)
   \<and> fst (estimate_completion (example_collector\<lparr>pages_processed := 2\<rparr>) frozen_world)
       = Inl ZeroDivisionError"
proof -
  have a: "update_progress page_null_last example_collector w
     = (Some AttributeError, example_collector\<lparr>pages_processed := 1\<rparr>, w)" for w
    by (simp add: update_progress_def page_null_last_def example_collector_def
        estimate_truthy_def extract_total_pages_def Let_def)
  let ?r0 = "open_outputs example_collector (example_world always_null_last)"
  let ?url = "api_base example_collector @ py_str (first_url example_collector)"
  have f: "fst (fetch_page ?url (env ?r0)) = Some page_null_last"
    by (simp add: fetch_page_def fetch_attempts.simps requests_get_def
        open_outputs_def example_world_def always_null_last_def Let_def print_line_def
        stdout_write_def)
  have nd: "\<not> not_data (Some page_null_last)"
    by (simp add: not_data_def page_truthy_def page_null_last_def)
  have l: "loop_body (first_url example_collector) ?r0
           = Raise AttributeError
               (?r0\<lparr>self := example_collector\<lparr>pages_processed := 1\<rparr>,
                    env := snd (fetch_page ?url (env ?r0))\<rparr>)"
  proof -
    obtain d w1 where p: "fetch_page ?url (env ?r0) = (d, w1)"
      by (cases "fetch_page ?url (env ?r0)")
    then have d: "d = Some page_null_last" using f by simp
    have s: "self ?r0 = example_collector" by (simp add: open_outputs_def Let_def)
    show ?thesis
      unfolding loop_body_def s p d using nd by (simp add: a)
  qed
  have t: "truthy (first_url example_collector)" by (simp add: first_url_def)
  have "collect_loop (first_url example_collector) ?r0
          = Some (Some AttributeError,
               ?r0\<lparr>self := example_collector\<lparr>pages_processed := 1\<rparr>,
                    env := snd (fetch_page ?url (env ?r0))\<rparr>)"
    by (subst collect_loop.simps) (simp add: l t)
  then have c: "map_option fst (collect_data example_collector (example_world always_null_last))
       = Some (Some AttributeError)"
    by (simp add: collect_data_def)
  have z: "fst (estimate_completion (example_collector\<lparr>pages_processed := 2\<rparr>) frozen_world)
       = Inl ZeroDivisionError"
    by (simp add: estimate_completion_def frozen_world_def example_world_def example_collector_def
        time_time_def estimate_truthy_def Let_def)
  show ?thesis using a c z by simp
qed




subsection \<open>The collection driver\<close>

text \<open>
  Claim C2, as amended. Let the loop have reached a loop head and there fetched and processed
  a page without an exception. Then the next value of \<^verbatim>\<open>next_url\<close> is the page's
  \<^verbatim>\<open>hydra:next\<close> reference, or \<^verbatim>\<open>None\<close> without one. If the reference is present and true
  in Python's sense (a string that is not empty), the loop goes through its body again, and
  that pass starts with the request for the API base followed by the reference. If the
  reference is absent, or present but empty or null, the loop ends at once in the state it
  is in, and \<^verbatim>\<open>collect_data\<close> returns after printing the summary: no request is sent
  any more.
\<close>

theorem pagination_follows_next_reference:
  assumes "iterate_loop n (first_url c) (open_outputs c w) = Some (u, r)"
    and "truthy u"
    and "loop_body u r = Continue u' r'"
  shows "\<exists>data.
           fst (fetch_page (api_base (self r) @ py_str u) (env r)) = Some data
           \<and> u' = next_reference data
           \<and> (has_next data \<and> truthy (next_reference data) \<longrightarrow>
                collect_loop (first_url c) (open_outputs c w) =
                    (case loop_body u' r' of
                       Break r1 \<Rightarrow> Some (None, r1)
                     | Raise e r1 \<Rightarrow> Some (Some e, r1)
                     | Continue next1 r1 \<Rightarrow> collect_loop next1 r1)
                \<and> (\<exists>t. trace (env (after_step (loop_body u' r'))) =
                        trace (env r') @ HttpGet (api_base (self r') @ py_str (next_reference data)) # t))
           \<and> (\<not> (has_next data \<and> truthy (next_reference data)) \<longrightarrow>
                collect_loop (first_url c) (open_outputs c w) = Some (None, r')
                \<and> (\<exists>final out. collect_data c w = Some (None, final)
                       \<and> requests_made (env final) = requests_made (env r')
                       \<and> trace (env final) = trace (env r') @ map Stdout out))"
proof -
  obtain data where
    d: "fst (fetch_page (api_base (self r) @ py_str u) (env r)) = Some data"
    and n: "u' = next_reference data"
    using loop_body_Continue [OF assms(3)] by auto
  have "collect_loop (first_url c) (open_outputs c w) = collect_loop u r"
    using assms(1) by (rule collect_loop_iterate)
  also have "\<dots> = collect_loop u' r'"
    using assms(2,3) by (subst collect_loop.simps) simp
  finally have l: "collect_loop (first_url c) (open_outputs c w) = collect_loop u' r'" .
  have hn: "\<not> has_next data \<Longrightarrow> \<not> truthy (next_reference data)"
    by (simp add: has_next_def next_reference_def split: option.splits)
  have a: "collect_loop (first_url c) (open_outputs c w) =
                    (case loop_body u' r' of
                       Break r1 \<Rightarrow> Some (None, r1)
                     | Raise e r1 \<Rightarrow> Some (Some e, r1)
                     | Continue next1 r1 \<Rightarrow> collect_loop next1 r1)"
    if "truthy u'"
    using that unfolding l by (subst collect_loop.simps) simp
  have b: "collect_loop (first_url c) (open_outputs c w) = Some (None, r')"
    if "\<not> truthy u'"
    using that unfolding l by (subst collect_loop.simps) simp
  have e: "\<exists>final out. collect_data c w = Some (None, final)
                       \<and> requests_made (env final) = requests_made (env r')
                       \<and> trace (env final) = trace (env r') @ map Stdout out"
    if "\<not> truthy u'"
  proof -
    let ?final = "r'\<lparr>env := print_summary (self r') (env r'),
                       routed_fh := close_file (routed_fh r'),
                       private_fh := close_file (private_fh r')\<rparr>"
    obtain out where o: "trace (print_summary (self r') (env r')) = trace (env r') @ map Stdout out"
      and q: "requests_made (print_summary (self r') (env r')) = requests_made (env r')"
      using print_summary_effect [of "self r'" "env r'"] by blast
    have "collect_data c w = Some (None, ?final)"
      using b [OF that] by (simp add: collect_data_def)
    moreover have "requests_made (env ?final) = requests_made (env r')" using q by simp
    moreover have "trace (env ?final) = trace (env r') @ map Stdout out" using o by simp
    ultimately show ?thesis by blast
  qed
  show ?thesis
  proof (intro exI [of _ data] conjI impI)
    show "fst (fetch_page (api_base (self r) @ py_str u) (env r)) = Some data" by (rule d)
    show "u' = next_reference data" by (rule n)
  next
    assume "has_next data \<and> truthy (next_reference data)"
    then show "collect_loop (first_url c) (open_outputs c w) =
                    (case loop_body u' r' of
                       Break r1 \<Rightarrow> Some (None, r1)
                     | Raise e r1 \<Rightarrow> Some (Some e, r1)
                     | Continue next1 r1 \<Rightarrow> collect_loop next1 r1)"
      using a n by simp
  next
    show "\<exists>t. trace (env (after_step (loop_body u' r'))) =
                        trace (env r') @ HttpGet (api_base (self r') @ py_str (next_reference data)) # t"
      using loop_body_trace [of u' r'] n by simp
  next
    assume "\<not> (has_next data \<and> truthy (next_reference data))"
    then have nt: "\<not> truthy u'" using hn n by auto
    show "collect_loop (first_url c) (open_outputs c w) = Some (None, r')" by (rule b [OF nt])
    show "\<exists>final out. collect_data c w = Some (None, final)
                       \<and> requests_made (env final) = requests_made (env r')
                       \<and> trace (env final) = trace (env r') @ map Stdout out"
      by (rule e [OF nt])
  qed
qed

text \<open>The theorem on the first page of two worlds: one whose page holds a reference to a second
  page, and one whose page holds an empty reference.\<close>

theorem pagination_follows_next_reference_witness:
  "iterate_loop 0 (first_url example_collector)
     (open_outputs example_collector (example_world one_page_then_down))
     = Some (first_url example_collector,
             open_outputs example_collector (example_world one_page_then_down))
   \<and> truthy (first_url example_collector)
   \<and> loop_body (first_url example_collector)
         (open_outputs example_collector (example_world one_page_then_down))
       = Continue (JStr ''/sessions?timestamp[after]=2024-01-01&page=2'') run_after_first_page
   \<and> has_next page_with_next \<and> truthy (next_reference page_with_next)
   \<and> (\<exists>t. trace (env (after_step
                 (loop_body (JStr ''/sessions?timestamp[after]=2024-01-01&page=2'')
                    run_after_first_page)))
            = trace (env run_after_first_page) @ HttpGet second_page_url # t)
   \<and> loop_body (first_url example_collector)
         (open_outputs example_collector (example_world always_empty_next))
       = Continue (JStr '''') run_after_empty_next
   \<and> \<not> truthy (next_reference page_empty_next)
   \<and> (\<exists>final out.
          collect_data example_collector (example_world always_empty_next) = Some (None, final)
          \<and> requests_made (env final) = 1
          \<and> trace (env final) = trace (env run_after_empty_next) @ map Stdout out)"
proof -
  let ?u = "JStr ''/sessions?timestamp[after]=2024-01-01&page=2''"
  let ?r1 = "open_outputs example_collector (example_world one_page_then_down)"
  let ?r2 = "open_outputs example_collector (example_world always_empty_next)"
  have t0: "truthy (first_url example_collector)" by (simp add: first_url_def)
  have i1: "iterate_loop 0 (first_url example_collector) ?r1 = Some (first_url example_collector, ?r1)"
    and i2: "iterate_loop 0 (first_url example_collector) ?r2 = Some (first_url example_collector, ?r2)"
    by simp_all
  have n1: "has_next page_with_next" "truthy (next_reference page_with_next)"
    "next_reference page_with_next = ?u"
    by (simp_all add: has_next_def next_reference_def page_with_next_def)
  have n2: "\<not> truthy (next_reference page_empty_next)"
    by (simp add: next_reference_def page_empty_next_def)
  have s: "api_base (self run_after_first_page) @ py_str ?u = second_page_url"
    by (simp add: run_after_first_page_def example_collector_def second_page_url_def)
  have q: "requests_made (env run_after_empty_next) = 1"
    by (simp add: run_after_empty_next_def)
  from pagination_follows_next_reference [OF i1 t0 first_page_loop_body]
  have w1: "\<exists>t. trace (env (after_step (loop_body ?u run_after_first_page)))
            = trace (env run_after_first_page) @ HttpGet second_page_url # t"
    using first_fetch_with_next n1 s by auto
  from pagination_follows_next_reference [OF i2 t0 first_page_loop_body_empty_next]
  have w2: "\<exists>final out.
          collect_data example_collector (example_world always_empty_next) = Some (None, final)
          \<and> requests_made (env final) = 1
          \<and> trace (env final) = trace (env run_after_empty_next) @ map Stdout out"
    using first_fetch_empty_next n2 q by auto
  show ?thesis
    using i1 t0 first_page_loop_body n1(1,2) w1 first_page_loop_body_empty_next n2 w2
    by (intro conjI) assumption+
qed

text \<open>
  Claim C2 as stated fails: that the page's metadata contains \<^verbatim>\<open>hydra:next\<close> is not enough
  for a further fetch. A page whose \<^verbatim>\<open>hydra:next\<close> is the empty string is processed, the
  page counter goes up to 2 as for a page with a continuation, and \<^verbatim>\<open>while next_url:\<close> ends
  the loop after the one request.
\<close>

theorem pagination_stops_on_empty_next_reference:
  "has_next page_empty_next
   \<and> fst (fetch_page (api_base (self (open_outputs example_collector (example_world always_empty_next)))
                       @ py_str (first_url example_collector))
            (env (open_outputs example_collector (example_world always_empty_next))))
       = Some page_empty_next
   \<and> loop_body (first_url example_collector)
         (open_outputs example_collector (example_world always_empty_next))
       = Continue (JStr '''') run_after_empty_next
   \<and> page (self run_after_empty_next) = 2
   \<and> requests_made (env run_after_empty_next) = 1
   \<and> collect_loop (JStr '''') run_after_empty_next = Some (None, run_after_empty_next)
   \<and> collect_loop (first_url example_collector)
         (open_outputs example_collector (example_world always_empty_next))
       = Some (None, run_after_empty_next)"
proof -
  have a: "has_next page_empty_next" by (simp add: has_next_def page_empty_next_def)
  have b: "page (self run_after_empty_next) = 2" "requests_made (env run_after_empty_next) = 1"
    by (simp_all add: run_after_empty_next_def)
  have c: "collect_loop (JStr '''') run_after_empty_next = Some (None, run_after_empty_next)"
    by (subst collect_loop.simps) simp
  have t0: "truthy (first_url example_collector)" by (simp add: first_url_def)
  have d: "collect_loop (first_url example_collector)
         (open_outputs example_collector (example_world always_empty_next))
       = Some (None, run_after_empty_next)"
    by (subst collect_loop.simps) (simp add: t0 first_page_loop_body_empty_next c)
  show ?thesis
    using a b c d first_fetch_empty_next first_page_loop_body_empty_next by simp
qed

text \<open>
  Claim C5. Let the loop have reached a loop head, after any number of processed pages, where
  \<^verbatim>\<open>fetch_page\<close> returns \<^verbatim>\<open>None\<close>. Then \<^verbatim>\<open>collect_data\<close> returns, and without an
  exception: both files are closed, each holds exactly what had been written to it before the
  failed fetch, which starts with the header, the counters are those of the loop head, and
  after the diagnostics of the fetch the console shows the failure notice and the summary
  with the total of records, the routed and private counts, the two output paths and the
  elapsed time.
\<close>

theorem fetch_failure_ends_gracefully:
  assumes "iterate_loop n (first_url c) (open_outputs c w) = Some (u, r)"
    and "truthy u"
    and "fst (fetch_page (api_base (self r) @ py_str u) (env r)) = None"
  shows "\<exists>final.
           collect_data c w = Some (None, final)
           \<and> is_closed (routed_fh final) \<and> is_closed (private_fh final)
           \<and> content (routed_fh final) = content (routed_fh r)
           \<and> content (private_fh final) = content (private_fh r)
           \<and> (\<exists>lines. content (routed_fh final) = file_header c (env (open_outputs c w)) @ lines)
           \<and> (\<exists>lines. content (private_fh final) = file_header c (env (open_outputs c w)) @ lines)
           \<and> self final = self r
           \<and> trace (env final) =
                trace (snd (fetch_page (api_base (self r) @ py_str u) (env r))) @ map Stdout
                [newline @ ''Failed to fetch data. Stopping.'' @ newline,
                 newline @ newline @ ''Data collection complete.'' @ newline,
                 ''Total records processed: '' @ str_nat (total_records (self r)) @ newline,
                 ''IPv4 clients that can spoof routed addresses: ''
                   @ str_nat (total_routed (self r)) @ newline,
                 ''IPv4 clients that can spoof private addresses: ''
                   @ str_nat (total_private (self r)) @ newline,
                 ''Results saved to: '' @ routed_output (self r) @ '' and ''
                   @ private_output (self r) @ newline,
                 ''Total time: ''
                   @ timedelta_str (py_trunc (clock (env r) (ticks (env r)) - start_time (self r)))
                   @ newline]"
proof -
  let ?w1 = "snd (fetch_page (api_base (self r) @ py_str u) (env r))"
  let ?r1 = "r\<lparr>env := print_line (newline @ ''Failed to fetch data. Stopping.'') ?w1\<rparr>"
  let ?final = "?r1\<lparr>env := print_summary (self ?r1) (env ?r1),
                     routed_fh := close_file (routed_fh ?r1),
                     private_fh := close_file (private_fh ?r1)\<rparr>"
  have "collect_loop (first_url c) (open_outputs c w) = collect_loop u r"
    using assms(1) by (rule collect_loop_iterate)
  also have "\<dots> = Some (None, ?r1)"
    using assms(2) loop_body_Break [OF assms(3)] by (subst collect_loop.simps) simp
  finally have cd: "collect_data c w = Some (None, ?final)"
    by (simp add: collect_data_def)
  obtain t1 t2 where
    g1: "content (routed_fh r) = content (routed_fh (open_outputs c w)) @ t1"
    and g2: "content (private_fh r) = content (private_fh (open_outputs c w)) @ t2"
    using iterate_loop_files_grow [OF assms(1)] by auto
  have h1: "content (routed_fh (open_outputs c w)) = file_header c (env (open_outputs c w))"
    and h2: "content (private_fh (open_outputs c w)) = file_header c (env (open_outputs c w))"
    by (simp_all add: open_outputs_def Let_def file_write_def)
  have tr: "trace (env ?final) = trace ?w1 @ map Stdout
                [newline @ ''Failed to fetch data. Stopping.'' @ newline,
                 newline @ newline @ ''Data collection complete.'' @ newline,
                 ''Total records processed: '' @ str_nat (total_records (self r)) @ newline,
                 ''IPv4 clients that can spoof routed addresses: ''
                   @ str_nat (total_routed (self r)) @ newline,
                 ''IPv4 clients that can spoof private addresses: ''
                   @ str_nat (total_private (self r)) @ newline,
                 ''Results saved to: '' @ routed_output (self r) @ '' and ''
                   @ private_output (self r) @ newline,
                 ''Total time: ''
                   @ timedelta_str (py_trunc (clock (env r) (ticks (env r)) - start_time (self r)))
                   @ newline]"
    using fetch_page_clock [of "api_base (self r) @ py_str u" "env r"]
    by (simp add: print_summary_effect print_line_def stdout_write_def)
  show ?thesis
    apply (rule exI [of _ ?final])
    using cd g1 g2 h1 h2 tr
    by (simp add: close_file_def)
qed

text \<open>The theorem in a world that delivers one page with a continuation reference and then
  fails for good.\<close>

theorem fetch_failure_ends_gracefully_witness:
  "iterate_loop 1 (first_url example_collector)
     (open_outputs example_collector (example_world one_page_then_down))
     = Some (JStr ''/sessions?timestamp[after]=2024-01-01&page=2'', run_after_first_page)
   \<and> truthy (JStr ''/sessions?timestamp[after]=2024-01-01&page=2'')
   \<and> fst (fetch_page (api_base (self run_after_first_page)
                       @ py_str (JStr ''/sessions?timestamp[after]=2024-01-01&page=2''))
            (env run_after_first_page)) = None
   \<and> (\<exists>final.
         collect_data example_collector (example_world one_page_then_down) = Some (None, final)
         \<and> is_closed (routed_fh final) \<and> is_closed (private_fh final)
         \<and> content (routed_fh final) = example_header @ routed_session_line @ newline
         \<and> content (private_fh final) = example_header
         \<and> total_records (self final) = 1
         \<and> trace (env final) =
             trace (env run_after_first_page) @
             [HttpGet second_page_url,
              Stdout (''Error fetching data: timeout. Retrying in 2 seconds...'' @ newline),
              Sleep 2,
              HttpGet second_page_url,
              Stdout (''Error fetching data: timeout. Retrying in 4 seconds...'' @ newline),
              Sleep 4,
              HttpGet second_page_url,
              Stdout (''Failed to fetch data after 3 attempts: timeout'' @ newline),
              Stdout (newline @ ''Failed to fetch data. Stopping.'' @ newline),
              Stdout (newline @ newline @ ''Data collection complete.'' @ newline),
              Stdout (''Total records processed: 1'' @ newline),
              Stdout (''IPv4 clients that can spoof routed addresses: 1'' @ newline),
              Stdout (''IPv4 clients that can spoof private addresses: 0'' @ newline),
              Stdout (''Results saved to: routed.txt and private.txt'' @ newline),
              Stdout (''Total time: 0:00:10'' @ newline)])"
proof -
  let ?u = "JStr ''/sessions?timestamp[after]=2024-01-01&page=2''"
  have t0: "truthy (first_url example_collector)" by (simp add: first_url_def)
  have h1: "iterate_loop 1 (first_url example_collector)
     (open_outputs example_collector (example_world one_page_then_down))
     = Some (?u, run_after_first_page)"
    using t0 by (simp add: first_page_loop_body)
  have h2: "truthy ?u" by simp
  have h3: "fst (fetch_page (api_base (self run_after_first_page) @ py_str ?u)
                  (env run_after_first_page)) = None"
    unfolding second_page_fetch_fails by simp
  have v: "self run_after_first_page =
             example_collector\<lparr>total_records := 1, total_routed := 1, page := 2,
                                 pages_processed := 1, estimated_total_pages := Some 7\<rparr>"
    "content (routed_fh run_after_first_page) = example_header @ routed_session_line @ newline"
    "content (private_fh run_after_first_page) = example_header"
    "clock (env run_after_first_page) (ticks (env run_after_first_page)) = 10 * of_nat 1"
    by (simp_all add: run_after_first_page_def example_world_def)
  from fetch_failure_ends_gracefully [OF h1 h2 h3]
  obtain final where
    "collect_data example_collector (example_world one_page_then_down) = Some (None, final)"
    "is_closed (routed_fh final)" "is_closed (private_fh final)"
    "content (routed_fh final) = content (routed_fh run_after_first_page)"
    "content (private_fh final) = content (private_fh run_after_first_page)"
    "self final = self run_after_first_page"
    "trace (env final) =
       trace (snd (fetch_page (api_base (self run_after_first_page) @ py_str ?u)
                     (env run_after_first_page))) @ map Stdout
       [newline @ ''Failed to fetch data. Stopping.'' @ newline,
        newline @ newline @ ''Data collection complete.'' @ newline,
        ''Total records processed: '' @ str_nat (total_records (self run_after_first_page)) @ newline,
        ''IPv4 clients that can spoof routed addresses: ''
          @ str_nat (total_routed (self run_after_first_page)) @ newline,
        ''IPv4 clients that can spoof private addresses: ''
          @ str_nat (total_private (self run_after_first_page)) @ newline,
        ''Results saved to: '' @ routed_output (self run_after_first_page) @ '' and ''
          @ private_output (self run_after_first_page) @ newline,
        ''Total time: ''
          @ timedelta_str (py_trunc (clock (env run_after_first_page) (ticks (env run_after_first_page))
                                     - start_time (self run_after_first_page)))
          @ newline]"
    by blast
  then have "collect_data example_collector (example_world one_page_then_down) = Some (None, final)
         \<and> is_closed (routed_fh final) \<and> is_closed (private_fh final)
         \<and> content (routed_fh final) = example_header @ routed_session_line @ newline
         \<and> content (private_fh final) = example_header
         \<and> total_records (self final) = 1
         \<and> trace (env final) =
             trace (env run_after_first_page) @
             [HttpGet second_page_url,
              Stdout (''Error fetching data: timeout. Retrying in 2 seconds...'' @ newline),
              Sleep 2,
              HttpGet second_page_url,
              Stdout (''Error fetching data: timeout. Retrying in 4 seconds...'' @ newline),
              Sleep 4,
              HttpGet second_page_url,
              Stdout (''Failed to fetch data after 3 attempts: timeout'' @ newline),
              Stdout (newline @ ''Failed to fetch data. Stopping.'' @ newline),
              Stdout (newline @ newline @ ''Data collection complete.'' @ newline),
              Stdout (''Total records processed: 1'' @ newline),
              Stdout (''IPv4 clients that can spoof routed addresses: 1'' @ newline),
              Stdout (''IPv4 clients that can spoof private addresses: 0'' @ newline),
              Stdout (''Results saved to: routed.txt and private.txt'' @ newline),
              Stdout (''Total time: 0:00:10'' @ newline)]"
    unfolding second_page_fetch_fails
    by (simp add: v example_collector_def str_nat_0 str_nat_1 str_nat_Suc_0 ten_seconds)
  then show ?thesis using h1 h2 h3 by blast
qed

end
